theory Spec2Isabelle
  imports Main "HOL-Library.Sublist" "HOL-Library.Multiset"
begin

section \<open>Data model\<close>

text \<open>
  The lost-and-found application keeps two pieces of client state, both React
  contexts: the authentication context (current user, session, a loading flag) and
  the data context (the local list of items, a loading flag).  Every operation of
  the two contexts is an asynchronous function that talks to the Supabase client,
  updates the context state and shows toasts.  The model below passes the state
  explicitly, takes the answers of the Supabase client from a record of functions,
  and records, in the state, every remote call issued and every toast shown, in
  order.  Messages written to the console are not part of the model.
\<close>

text \<open>
  Modelled from the spec: the module \<^verbatim>\<open>@/types\<close> that declares \<^verbatim>\<open>UserRole\<close>,
  \<^verbatim>\<open>ItemType\<close>, \<^verbatim>\<open>ItemStatus\<close>, \<^verbatim>\<open>User\<close> and \<^verbatim>\<open>Item\<close> is not among the sources.
  The spec gives \<^verbatim>\<open>role\<close> as the enum user | admin, \<^verbatim>\<open>type\<close> as the enum
  normal | emergency and \<^verbatim>\<open>status\<close> as the enum lost | found; the sources use
  exactly these literals (the form schema, the sample items, the role tests).
  The field \<^verbatim>\<open>place\<close> receives the free-text location of the form, so it is a
  string here.
\<close>

datatype UserRole = Role_user | Role_admin

datatype ItemType = Normal | Emergency

datatype ItemStatus = Lost | Found

text \<open>The string a value of \<^verbatim>\<open>ItemType\<close> is at run time, as sent in a query filter.\<close>

fun ItemType_string :: "ItemType \<Rightarrow> string" where
  "ItemType_string Normal = ''normal''"
| "ItemType_string Emergency = ''emergency''"

fun ItemStatus_string :: "ItemStatus \<Rightarrow> string" where
  "ItemStatus_string Lost = ''lost''"
| "ItemStatus_string Found = ''found''"

text \<open>\<^verbatim>\<open>User\<close>: id, name, email, role, createdAt.\<close>

record User =
  user_id :: string
  user_name :: string
  user_email :: string
  user_role :: UserRole
  user_createdAt :: string

text \<open>
  \<^verbatim>\<open>Item\<close>: id, userId, userName, userPhone, productName, photo (a URL or null),
  place, date, type, status, createdAt.
\<close>

record Item =
  item_id :: string
  userId :: string
  userName :: string
  userPhone :: string
  productName :: string
  photo :: "string option"
  place :: string
  date :: string
  item_type :: ItemType
  status :: ItemStatus
  createdAt :: string

text \<open>The argument of \<^verbatim>\<open>addItem\<close>: an \<^verbatim>\<open>Item\<close> without id, userId and createdAt.\<close>

record NewItem =
  new_userName :: string
  new_userPhone :: string
  new_productName :: string
  new_photo :: "string option"
  new_place :: string
  new_date :: string
  new_type :: ItemType
  new_status :: ItemStatus

subsection \<open>The Supabase client\<close>

text \<open>An error object; only its message is read.\<close>

datatype error = Error (message: string)

text \<open>The session object of the identity provider; the code only tests it for null.\<close>

record Session =
  access_token :: string

text \<open>What \<^verbatim>\<open>auth.signUp\<close> returns in \<^verbatim>\<open>data\<close>: the id of the new user, the session.\<close>

record signup_data =
  signup_user :: "string option"
  signup_session :: "Session option"

text \<open>A row of the table \<^verbatim>\<open>items\<close>, by column; name, phone number and photo can be null.\<close>

record item_row =
  row_id :: string
  row_user_id :: string
  row_name :: "string option"
  row_phone_number :: "string option"
  row_product_name :: string
  row_photo_url :: "string option"
  row_place :: string
  row_date :: string
  row_type :: ItemType
  row_status :: ItemStatus
  row_created_at :: string

text \<open>The object \<^verbatim>\<open>itemData\<close> that \<^verbatim>\<open>addItem\<close> inserts.\<close>

record item_insert =
  ins_user_id :: string
  ins_name :: string
  ins_phone_number :: string
  ins_product_name :: string
  ins_photo_url :: "string option"
  ins_place :: string
  ins_date :: string
  ins_type :: ItemType
  ins_status :: ItemStatus

text \<open>
  The filters of the query builder that the code uses: \<^verbatim>\<open>eq\<close>, \<^verbatim>\<open>gte\<close>, \<^verbatim>\<open>lte\<close>, each
  with a column and a value.  A query carries its filters in the order they were
  added.
\<close>

datatype query_filter =
    Eq string string
  | Gte string string
  | Lte string string

text \<open>Every call to the Supabase client that the modelled operations make.\<close>

datatype remote_call =
    Auth_signOut
  | Auth_signUp string string string UserRole
  | Profiles_insert string UserRole string
  | Items_select
  | Items_insert item_insert
  | Items_update ItemStatus "query_filter list"
  | Items_delete "query_filter list"

text \<open>
  The answers of the client.  A call answers with an error (the \<^verbatim>\<open>error\<close> field of
  the result is set, or the promise is rejected: the code handles both in the same
  \<^verbatim>\<open>catch\<close>) or with its data, which can be null.  \<^verbatim>\<open>Auth_signUp\<close> takes email,
  password, name and role; \<^verbatim>\<open>Profiles_insert\<close> takes id, role and name.  The answer
  of \<^verbatim>\<open>auth.signOut\<close> is ignored by the code and so is not part of the record.
\<close>

record supabase =
  auth_signUp :: "string \<Rightarrow> string \<Rightarrow> string \<Rightarrow> UserRole \<Rightarrow> error + signup_data"
  from_profiles_insert :: "string \<Rightarrow> UserRole \<Rightarrow> string \<Rightarrow> error option"
  from_items_select :: "error + item_row list option"
  from_items_insert :: "item_insert \<Rightarrow> error + item_row option"
  from_items_update :: "ItemStatus \<Rightarrow> query_filter list \<Rightarrow> error option"
  from_items_delete :: "query_filter list \<Rightarrow> error option"

subsection \<open>The state of the two contexts\<close>

datatype toast = Toast_error string | Toast_success string | Toast_info string

text \<open>
  \<^verbatim>\<open>user\<close>, \<^verbatim>\<open>session\<close> and \<^verbatim>\<open>auth_loading\<close> are the state of the authentication
  context, \<^verbatim>\<open>items\<close> and \<^verbatim>\<open>data_loading\<close> that of the data context (both flags are
  called \<^verbatim>\<open>loading\<close> in the source).  The two browser stores are lists of key and
  value.  \<^verbatim>\<open>toasts\<close> and \<^verbatim>\<open>calls\<close> are the toasts shown and the remote calls issued
  so far, oldest first.
\<close>

record app_state =
  user :: "User option"
  session :: "Session option"
  auth_loading :: bool
  items :: "Item list"
  data_loading :: bool
  localStorage :: "(string \<times> string) list"
  sessionStorage :: "(string \<times> string) list"
  toasts :: "toast list"
  calls :: "remote_call list"

definition show_toast :: "toast \<Rightarrow> app_state \<Rightarrow> app_state" where
  "show_toast t s = s\<lparr>toasts := toasts s @ [t]\<rparr>"

definition issue :: "remote_call \<Rightarrow> app_state \<Rightarrow> app_state" where
  "issue c s = s\<lparr>calls := calls s @ [c]\<rparr>"

section \<open>The authentication context\<close>

definition ADMIN_CODE :: string where
  "ADMIN_CODE = ''79041167197200060295''"

definition removeItem :: "string \<Rightarrow> (string \<times> string) list \<Rightarrow> (string \<times> string) list" where
  "removeItem key store = filter (\<lambda>kv. fst kv \<noteq> key) store"

text \<open>\<^verbatim>\<open>key.startsWith('supabase.auth.') || key.includes('sb-')\<close>\<close>

definition is_auth_key :: "string \<Rightarrow> bool" where
  "is_auth_key key = (prefix ''supabase.auth.'' key \<or> sublist ''sb-'' key)"

text \<open>\<^verbatim>\<open>Object.keys(store).forEach\<close>: the keys are taken first, then each is visited.\<close>

definition remove_auth_keys :: "(string \<times> string) list \<Rightarrow> (string \<times> string) list" where
  "remove_auth_keys store =
     fold (\<lambda>key st. if is_auth_key key then removeItem key st else st) (map fst store) store"

definition cleanupAuthState :: "app_state \<Rightarrow> app_state" where
  "cleanupAuthState s =
     s\<lparr>localStorage := remove_auth_keys (removeItem ''supabase.auth.token'' (localStorage s)),
       sessionStorage := remove_auth_keys (sessionStorage s)\<rparr>"

text \<open>
  The part of \<^verbatim>\<open>register\<close> after the admin-code check: the sign-up with the
  identity provider, then the insert of the profile.  The result is \<open>Some e\<close> when
  the function rethrows \<open>e\<close> and \<open>None\<close> when it returns.  The \<^verbatim>\<open>finally\<close> block sets
  the loading flag to false on every path.
\<close>

definition register_signUp ::
  "supabase \<Rightarrow> app_state \<Rightarrow> string \<Rightarrow> string \<Rightarrow> string \<Rightarrow> UserRole \<Rightarrow> error option \<times> app_state" where
  "register_signUp sb s name email password role =
     (let s1 = issue (Auth_signUp email password name role) s in
      case auth_signUp sb email password name role of
        Inl e \<Rightarrow>
          (Some e,
           (show_toast (Toast_error (if message e \<noteq> [] then message e else ''Failed to register'')) s1)
             \<lparr>auth_loading := False\<rparr>)
      | Inr data \<Rightarrow>
          (case signup_user data of
             None \<Rightarrow> (None, s1\<lparr>auth_loading := False\<rparr>)
           | Some uid \<Rightarrow>
               (let s2 = issue (Profiles_insert uid role name) s1;
                    s3 = (case from_profiles_insert sb uid role name of
                            Some profileError \<Rightarrow>
                              show_toast (Toast_error ''Account created but profile setup failed'') s2
                          | None \<Rightarrow> s2);
                    s4 = show_toast
                           (Toast_success
                              (''Registration successful! '' @
                               (case signup_session data of
                                  Some _ \<Rightarrow> ''''
                                | None \<Rightarrow> ''Please check your email to confirm your account.'')))
                           s3
                in (None, s4\<lparr>auth_loading := False\<rparr>))))"

text \<open>
  \<^verbatim>\<open>register(name, email, password, adminCode?)\<close>.  The optional argument is
  \<open>None\<close> when it is undefined.  \<^verbatim>\<open>if (adminCode)\<close> is false for undefined and for
  the empty string.  Every call first clears the stored credentials and signs out.
  The body writes neither the user nor the session of the context: these are set
  by the listener for auth-state changes and by \<^verbatim>\<open>logout\<close>.
\<close>

definition register ::
  "supabase \<Rightarrow> app_state \<Rightarrow> string \<Rightarrow> string \<Rightarrow> string \<Rightarrow> string option \<Rightarrow> error option \<times> app_state" where
  "register sb s name email password adminCode =
     (let s1 = issue Auth_signOut (cleanupAuthState (s\<lparr>auth_loading := True\<rparr>)) in
      case adminCode of
        None \<Rightarrow> register_signUp sb s1 name email password Role_user
      | Some code \<Rightarrow>
          if code = [] then register_signUp sb s1 name email password Role_user
          else if code = ADMIN_CODE then register_signUp sb s1 name email password Role_admin
          else (None, (show_toast (Toast_error ''Invalid admin code'') s1)\<lparr>auth_loading := False\<rparr>))"

section \<open>The data context\<close>

text \<open>Initial sample data in case Supabase data is not loaded.\<close>

definition INITIAL_ITEMS :: "Item list" where
  "INITIAL_ITEMS =
     [\<lparr>item_id = ''item1'', userId = ''2'', userName = ''Test User'',
       userPhone = ''9876543210'', productName = ''Water Bottle'',
       photo = Some ''https://images.unsplash.com/photo-1618160702438-9b02ab6515c9'',
       place = ''lost'', date = ''2023-05-15T10:30:00Z'', item_type = Normal,
       status = Lost, createdAt = ''2023-05-15T10:30:00Z''\<rparr>,
      \<lparr>item_id = ''item2'', userId = ''2'', userName = ''Test User'',
       userPhone = ''9876543210'', productName = ''Laptop'', photo = None,
       place = ''lost'', date = ''2023-05-17T14:20:00Z'', item_type = Emergency,
       status = Lost, createdAt = ''2023-05-17T14:20:00Z''\<rparr>,
      \<lparr>item_id = ''item3'', userId = ''1'', userName = ''Admin User'',
       userPhone = ''9876543211'', productName = ''Wallet'', photo = None,
       place = ''found'', date = ''2023-05-18T09:15:00Z'', item_type = Normal,
       status = Found, createdAt = ''2023-05-18T09:15:00Z''\<rparr>]"

text \<open>
  \<^verbatim>\<open>mapSupabaseItem\<close> turns a row into an \<^verbatim>\<open>Item\<close>.  \<^verbatim>\<open>item.name || 'Unknown User'\<close>
  takes the default for null and for the empty string; \<^verbatim>\<open>item.phone_number || ''\<close>
  gives the empty string for both.  The casts of place, type and status check
  nothing.
\<close>

definition mapSupabaseItem :: "item_row \<Rightarrow> Item" where
  "mapSupabaseItem item =
     \<lparr>item_id = row_id item,
      userId = row_user_id item,
      userName = (case row_name item of
                    None \<Rightarrow> ''Unknown User''
                  | Some n \<Rightarrow> if n = [] then ''Unknown User'' else n),
      userPhone = (case row_phone_number item of None \<Rightarrow> [] | Some p \<Rightarrow> p),
      productName = row_product_name item,
      photo = row_photo_url item,
      place = row_place item,
      date = row_date item,
      item_type = row_type item,
      status = row_status item,
      createdAt = row_created_at item\<rparr>"

text \<open>
  \<^verbatim>\<open>loadItems\<close>: select all rows, newest first.  An error shows a toast and puts
  the sample data in the list; data that is null leaves the list as it is.
\<close>

definition loadItems :: "supabase \<Rightarrow> app_state \<Rightarrow> app_state" where
  "loadItems sb s =
     (let s1 = issue Items_select (s\<lparr>data_loading := True\<rparr>) in
      case from_items_select sb of
        Inl e \<Rightarrow>
          ((show_toast (Toast_error ''Failed to load items'') s1)
             \<lparr>items := INITIAL_ITEMS\<rparr>)\<lparr>data_loading := False\<rparr>
      | Inr None \<Rightarrow> s1\<lparr>data_loading := False\<rparr>
      | Inr (Some data) \<Rightarrow> s1\<lparr>items := map mapSupabaseItem data, data_loading := False\<rparr>)"

text \<open>
  The object that \<^verbatim>\<open>addItem\<close> inserts for the user \<open>u\<close>; \<open>isoString\<close> is the value of
  \<^verbatim>\<open>new Date(newItemData.date).toISOString()\<close>, of which the part before the first
  \<^verbatim>\<open>T\<close> is kept.
\<close>

definition itemData :: "User \<Rightarrow> NewItem \<Rightarrow> string \<Rightarrow> item_insert" where
  "itemData u newItemData isoString =
     \<lparr>ins_user_id = user_id u,
      ins_name = new_userName newItemData,
      ins_phone_number = new_userPhone newItemData,
      ins_product_name = new_productName newItemData,
      ins_photo_url = new_photo newItemData,
      ins_place = new_place newItemData,
      ins_date = takeWhile (\<lambda>c. c \<noteq> CHR ''T'') isoString,
      ins_type = new_type newItemData,
      ins_status = new_status newItemData\<rparr>"

text \<open>
  \<^verbatim>\<open>addItem\<close>.  The first argument stands for the date arithmetic of the JavaScript
  runtime: \<open>toISOString d\<close> is \<^verbatim>\<open>new Date(d).toISOString()\<close>, and \<open>None\<close> when \<open>d\<close> is
  not a date, where the call throws a RangeError inside the \<^verbatim>\<open>try\<close> block.
\<close>

definition addItem ::
  "(string \<Rightarrow> string option) \<Rightarrow> supabase \<Rightarrow> app_state \<Rightarrow> NewItem \<Rightarrow> app_state" where
  "addItem toISOString sb s newItemData =
     (case user s of
        None \<Rightarrow> show_toast (Toast_error ''You must be logged in to add an item'') s
      | Some u \<Rightarrow>
          (let s1 = s\<lparr>data_loading := True\<rparr> in
           case toISOString (new_date newItemData) of
             None \<Rightarrow> (show_toast (Toast_error ''Failed to add item'') s1)\<lparr>data_loading := False\<rparr>
           | Some isoString \<Rightarrow>
               (let s2 = issue (Items_insert (itemData u newItemData isoString)) s1 in
                case from_items_insert sb (itemData u newItemData isoString) of
                  Inl e \<Rightarrow>
                    (show_toast (Toast_error ''Failed to add item'') s2)\<lparr>data_loading := False\<rparr>
                | Inr None \<Rightarrow> s2\<lparr>data_loading := False\<rparr>
                | Inr (Some data) \<Rightarrow>
                    (show_toast (Toast_success ''Item added successfully'')
                       (s2\<lparr>items := mapSupabaseItem data # items s2\<rparr>))
                      \<lparr>data_loading := False\<rparr>)))"

definition updateItemStatus :: "supabase \<Rightarrow> app_state \<Rightarrow> string \<Rightarrow> ItemStatus \<Rightarrow> app_state" where
  "updateItemStatus sb s id' status' =
     (let s1 = issue (Items_update status' [Eq ''id'' id']) (s\<lparr>data_loading := True\<rparr>) in
      case from_items_update sb status' [Eq ''id'' id'] of
        Some e \<Rightarrow>
          (show_toast (Toast_error ''Failed to update item status'') s1)\<lparr>data_loading := False\<rparr>
      | None \<Rightarrow>
          (show_toast (Toast_success (''Item marked as '' @ ItemStatus_string status'))
             (s1\<lparr>items := map (\<lambda>item. if item_id item = id' then item\<lparr>status := status'\<rparr> else item)
                               (items s1)\<rparr>))
            \<lparr>data_loading := False\<rparr>)"

definition deleteItem :: "supabase \<Rightarrow> app_state \<Rightarrow> string \<Rightarrow> app_state" where
  "deleteItem sb s id' =
     (let s1 = issue (Items_delete [Eq ''id'' id']) (s\<lparr>data_loading := True\<rparr>) in
      case from_items_delete sb [Eq ''id'' id'] of
        Some e \<Rightarrow> (show_toast (Toast_error ''Failed to delete item'') s1)\<lparr>data_loading := False\<rparr>
      | None \<Rightarrow>
          (show_toast (Toast_success ''Item deleted successfully'')
             (s1\<lparr>items := filter (\<lambda>item. item_id item \<noteq> id') (items s1)\<rparr>))
            \<lparr>data_loading := False\<rparr>)"

text \<open>
  The optional arguments of \<^verbatim>\<open>deleteItemsByFilter\<close>: a date range with \<^verbatim>\<open>start\<close> and
  \<^verbatim>\<open>end\<close>, and a type that is an \<^verbatim>\<open>ItemType\<close> or the literal \<^verbatim>\<open>"all"\<close>.
\<close>

record dateRange =
  range_start :: string
  range_end :: string

datatype type_choice = All_types | One_type ItemType

text \<open>The filters that \<^verbatim>\<open>deleteItemsByFilter\<close> adds to the delete query, in order.\<close>

definition delete_query :: "dateRange option \<Rightarrow> type_choice option \<Rightarrow> query_filter list" where
  "delete_query dateRange ty =
     (case dateRange of
        None \<Rightarrow> []
      | Some r \<Rightarrow> [Gte ''date'' (range_start r), Lte ''date'' (range_end r)])
     @ (case ty of
          None \<Rightarrow> []
        | Some All_types \<Rightarrow> []
        | Some (One_type t) \<Rightarrow> [Eq ''type'' (ItemType_string t)])"

definition deleteItemsByFilter ::
  "supabase \<Rightarrow> app_state \<Rightarrow> dateRange option \<Rightarrow> type_choice option \<Rightarrow> app_state" where
  "deleteItemsByFilter sb s dateRange ty =
     (if (case user s of None \<Rightarrow> True | Some u \<Rightarrow> user_role u \<noteq> Role_admin) then
        show_toast (Toast_error ''Only admins can perform batch deletions'') s
      else
        (let s1 = issue (Items_delete (delete_query dateRange ty)) (s\<lparr>data_loading := True\<rparr>) in
         case from_items_delete sb (delete_query dateRange ty) of
           Some e \<Rightarrow> (show_toast (Toast_error ''Failed to delete items'') s1)\<lparr>data_loading := False\<rparr>
         | None \<Rightarrow>
             (show_toast (Toast_success ''Items deleted successfully'') (loadItems sb s1))
               \<lparr>data_loading := False\<rparr>))"

definition getUserItems :: "app_state \<Rightarrow> Item list" where
  "getUserItems s =
     (case user s of None \<Rightarrow> [] | Some u \<Rightarrow> filter (\<lambda>item. userId item = user_id u) (items s))"

definition getEmergencyItems :: "app_state \<Rightarrow> Item list" where
  "getEmergencyItems s = filter (\<lambda>item. item_type item = Emergency) (items s)"

definition getNormalItems :: "app_state \<Rightarrow> Item list" where
  "getNormalItems s = filter (\<lambda>item. item_type item = Normal) (items s)"

definition getItemById :: "app_state \<Rightarrow> string \<Rightarrow> Item option" where
  "getItemById s id' = find (\<lambda>item. item_id item = id') (items s)"

subsection \<open>What a delete query selects\<close>

text \<open>
  The remote store evaluates the filters of a query on each row and deletes the rows
  on which all of them hold.  \<open>le\<close> is the store's order on the values of the column
  \<^verbatim>\<open>date\<close>.  Only the three columns that the queries above name are read here; a
  filter on any other column holds on no row.
\<close>

definition column_value :: "string \<Rightarrow> item_row \<Rightarrow> string option" where
  "column_value c r =
     (if c = ''id'' then Some (row_id r)
      else if c = ''date'' then Some (row_date r)
      else if c = ''type'' then Some (ItemType_string (row_type r))
      else None)"

fun filter_holds :: "(string \<Rightarrow> string \<Rightarrow> bool) \<Rightarrow> item_row \<Rightarrow> query_filter \<Rightarrow> bool" where
  "filter_holds le r (Eq c v) = (case column_value c r of None \<Rightarrow> False | Some x \<Rightarrow> x = v)"
| "filter_holds le r (Gte c v) = (case column_value c r of None \<Rightarrow> False | Some x \<Rightarrow> le v x)"
| "filter_holds le r (Lte c v) = (case column_value c r of None \<Rightarrow> False | Some x \<Rightarrow> le x v)"

definition query_selects :: "(string \<Rightarrow> string \<Rightarrow> bool) \<Rightarrow> query_filter list \<Rightarrow> item_row \<Rightarrow> bool" where
  "query_selects le fs r = list_all (filter_holds le r) fs"

section \<open>Sample values\<close>

text \<open>
  Concrete values on which the theorems below are instantiated: two users, a client
  that answers every call successfully and stores what is inserted, a client on
  which every call fails, two states, and an item to add.
\<close>

definition sample_admin :: User where
  "sample_admin =
     \<lparr>user_id = ''1'', user_name = ''Admin User'', user_email = ''admin@sec.edu'',
      user_role = Role_admin, user_createdAt = ''2023-05-01T00:00:00Z''\<rparr>"

definition sample_user :: User where
  "sample_user =
     \<lparr>user_id = ''2'', user_name = ''Test User'', user_email = ''test@sec.edu'',
      user_role = Role_user, user_createdAt = ''2023-05-01T00:00:00Z''\<rparr>"

definition sample_new :: NewItem where
  "sample_new =
     \<lparr>new_userName = ''Test User'', new_userPhone = ''9876543210'',
      new_productName = ''Umbrella'', new_photo = None, new_place = ''Library, first floor'',
      new_date = ''2024-01-05T08:00:00.000Z'', new_type = Emergency, new_status = Found\<rparr>"

definition sample_toISOString :: "string \<Rightarrow> string option" where
  "sample_toISOString d = (if d = ''2024-01-05T08:00:00.000Z'' then Some d else None)"

text \<open>The row a store holds after an insert: the inserted columns, an id and a time.\<close>

definition stored_row :: "item_insert \<Rightarrow> item_row" where
  "stored_row d =
     \<lparr>row_id = ''new1'', row_user_id = ins_user_id d, row_name = Some (ins_name d),
      row_phone_number = Some (ins_phone_number d), row_product_name = ins_product_name d,
      row_photo_url = ins_photo_url d, row_place = ins_place d, row_date = ins_date d,
      row_type = ins_type d, row_status = ins_status d,
      row_created_at = ''2024-01-05T08:00:01Z''\<rparr>"

definition sample_row :: item_row where
  "sample_row = stored_row (itemData sample_user sample_new ''2024-01-05T08:00:00.000Z'')"

definition sb_up :: supabase where
  "sb_up =
     \<lparr>auth_signUp = (\<lambda>email password name role.
         Inr \<lparr>signup_user = Some ''u1'', signup_session = None\<rparr>),
      from_profiles_insert = (\<lambda>uid role name. None),
      from_items_select = Inr (Some [sample_row]),
      from_items_insert = (\<lambda>d. Inr (Some (stored_row d))),
      from_items_update = (\<lambda>st fs. None),
      from_items_delete = (\<lambda>fs. None)\<rparr>"

definition sb_down :: supabase where
  "sb_down =
     \<lparr>auth_signUp = (\<lambda>email password name role. Inl (Error ''network'')),
      from_profiles_insert = (\<lambda>uid role name. Some (Error ''network'')),
      from_items_select = Inl (Error ''network''),
      from_items_insert = (\<lambda>d. Inl (Error ''network'')),
      from_items_update = (\<lambda>st fs. Some (Error ''network'')),
      from_items_delete = (\<lambda>fs. Some (Error ''network''))\<rparr>"

text \<open>The state when the two contexts are mounted, and a state with the sample items.\<close>

definition s_init :: app_state where
  "s_init =
     \<lparr>user = None, session = None, auth_loading = True, items = [], data_loading = True,
      localStorage = [], sessionStorage = [], toasts = [], calls = []\<rparr>"

definition s_with :: "User option \<Rightarrow> app_state" where
  "s_with u =
     \<lparr>user = u, session = None, auth_loading = False, items = INITIAL_ITEMS,
      data_loading = False, localStorage = [], sessionStorage = [], toasts = [], calls = []\<rparr>"

lemma s_init_fields [simp]:
  "user s_init = None" "session s_init = None" "items s_init = []"
  "toasts s_init = []" "calls s_init = []"
  by (simp_all add: s_init_def)

lemma s_with_fields [simp]:
  "user (s_with u) = u" "items (s_with u) = INITIAL_ITEMS"
  "toasts (s_with u) = []" "calls (s_with u) = []"
  by (simp_all add: s_with_def)

lemma sample_fields [simp]:
  "user_role sample_admin = Role_admin" "user_role sample_user = Role_user"
  "new_date sample_new = ''2024-01-05T08:00:00.000Z''"
  "new_type sample_new = Emergency" "new_status sample_new = Found"
  "sample_toISOString ''2024-01-05T08:00:00.000Z'' = Some ''2024-01-05T08:00:00.000Z''"
  by (simp_all add: sample_admin_def sample_user_def sample_new_def sample_toISOString_def)

lemma stored_row_columns [simp]:
  "row_type (stored_row d) = ins_type d" "row_status (stored_row d) = ins_status d"
  by (simp_all add: stored_row_def)

lemma sb_up_answers [simp]:
  "auth_signUp sb_up email password name role
     = Inr \<lparr>signup_user = Some ''u1'', signup_session = None\<rparr>"
  "from_profiles_insert sb_up uid role name = None"
  "from_items_select sb_up = Inr (Some [sample_row])"
  "from_items_insert sb_up d = Inr (Some (stored_row d))"
  "from_items_update sb_up st fs = None"
  "from_items_delete sb_up fs = None"
  by (simp_all add: sb_up_def)

lemma sb_down_answers [simp]:
  "auth_signUp sb_down email password name role = Inl (Error ''network'')"
  "from_items_select sb_down = Inl (Error ''network'')"
  "from_items_insert sb_down d = Inl (Error ''network'')"
  "from_items_update sb_down st fs = Some (Error ''network'')"
  "from_items_delete sb_down fs = Some (Error ''network'')"
  by (simp_all add: sb_down_def)

lemma length_INITIAL_ITEMS [simp]: "length INITIAL_ITEMS = 3"
  by (simp add: INITIAL_ITEMS_def)

section \<open>Properties of the authentication context\<close>

lemma cleanupAuthState_frame [simp]:
  "calls (cleanupAuthState s) = calls s"
  "toasts (cleanupAuthState s) = toasts s"
  "user (cleanupAuthState s) = user s"
  "session (cleanupAuthState s) = session s"
  "items (cleanupAuthState s) = items s"
  by (simp_all add: cleanupAuthState_def)

text \<open>The calls that the sign-up part of \<^verbatim>\<open>register\<close> issues.\<close>

lemma calls_register_signUp:
  "calls (snd (register_signUp sb s name email password role)) =
     calls s @ Auth_signUp email password name role #
       (case auth_signUp sb email password name role of
          Inl e \<Rightarrow> []
        | Inr data \<Rightarrow>
            (case signup_user data of
               None \<Rightarrow> []
             | Some uid \<Rightarrow> [Profiles_insert uid role name]))"
  by (simp add: register_signUp_def issue_def show_toast_def Let_def
           split: sum.splits option.splits)

text \<open>
  C1.  A call of \<^verbatim>\<open>register\<close> with a non-empty admin code that differs from the
  fixed secret returns without throwing, shows the toast "Invalid admin code",
  issues no call but the sign-out that opens every registration (so no sign-up and
  no profile insert, hence no account, no session and no admin role), and writes
  neither the session nor the user of the context.
\<close>

theorem register_invalid_admin_code:
  assumes "code \<noteq> []" and "code \<noteq> ''79041167197200060295''"
  shows "fst (register sb s name email password (Some code)) = None
       \<and> toasts (snd (register sb s name email password (Some code)))
           = toasts s @ [Toast_error ''Invalid admin code'']
       \<and> calls (snd (register sb s name email password (Some code))) = calls s @ [Auth_signOut]
       \<and> session (snd (register sb s name email password (Some code))) = session s
       \<and> user (snd (register sb s name email password (Some code))) = user s"
  using assms by (simp add: register_def show_toast_def issue_def ADMIN_CODE_def)

theorem register_invalid_admin_code_witness:
  "''wrong'' \<noteq> [] \<and> ''wrong'' \<noteq> ''79041167197200060295''
   \<and> ADMIN_CODE = ''79041167197200060295''
   \<and> fst (register sb_up s_init ''Asha'' ''asha@sec.edu'' ''secret1'' (Some ''wrong'')) = None
   \<and> toasts (snd (register sb_up s_init ''Asha'' ''asha@sec.edu'' ''secret1'' (Some ''wrong'')))
       = [Toast_error ''Invalid admin code'']
   \<and> calls (snd (register sb_up s_init ''Asha'' ''asha@sec.edu'' ''secret1'' (Some ''wrong'')))
       = [Auth_signOut]"
  using register_invalid_admin_code
    [of "''wrong''" sb_up s_init "''Asha''" "''asha@sec.edu''" "''secret1''"]
  by (simp add: ADMIN_CODE_def)

text \<open>
  C2.  When \<^verbatim>\<open>register\<close> is called with the fixed secret as admin code and the
  sign-up answers without error, the sign-up carries the role admin, and the
  profile row inserted for the user that the sign-up returned carries the role
  admin; no other profile row is inserted.  (When the sign-up returns no user, no
  profile is inserted at all.)
\<close>

theorem register_admin_code_profile_role:
  assumes "auth_signUp sb email password name Role_admin = Inr data"
  shows "ADMIN_CODE = ''79041167197200060295''
       \<and> calls (snd (register sb s name email password (Some ''79041167197200060295''))) =
           calls s @ [Auth_signOut, Auth_signUp email password name Role_admin]
             @ (case signup_user data of
                  None \<Rightarrow> []
                | Some uid \<Rightarrow> [Profiles_insert uid Role_admin name])"
  using assms by (simp add: register_def calls_register_signUp issue_def ADMIN_CODE_def)

theorem register_admin_code_profile_role_witness:
  "auth_signUp sb_up ''asha@sec.edu'' ''secret1'' ''Asha'' Role_admin
     = Inr \<lparr>signup_user = Some ''u1'', signup_session = None\<rparr>
   \<and> calls (snd (register sb_up s_init ''Asha'' ''asha@sec.edu'' ''secret1''
                     (Some ''79041167197200060295'')))
       = [Auth_signOut, Auth_signUp ''asha@sec.edu'' ''secret1'' ''Asha'' Role_admin,
          Profiles_insert ''u1'' Role_admin ''Asha'']"
  using register_admin_code_profile_role
    [of sb_up "''asha@sec.edu''" "''secret1''" "''Asha''"
        "\<lparr>signup_user = Some ''u1'', signup_session = None\<rparr>" s_init]
  by (simp add: ADMIN_CODE_def)

text \<open>
  C10.  With the empty string as admin code the check of the code is skipped:
  \<^verbatim>\<open>register\<close> does exactly what it does without an admin code, that is, it signs
  up with the role user, and inserts the profile with the role user when the
  sign-up returns a user.
\<close>

theorem register_empty_admin_code:
  "register sb s name email password (Some []) = register sb s name email password None
   \<and> calls (snd (register sb s name email password (Some []))) =
       calls s @ Auth_signOut # Auth_signUp email password name Role_user #
         (case auth_signUp sb email password name Role_user of
            Inl e \<Rightarrow> []
          | Inr data \<Rightarrow>
              (case signup_user data of
                 None \<Rightarrow> []
               | Some uid \<Rightarrow> [Profiles_insert uid Role_user name]))"
  by (simp add: register_def calls_register_signUp issue_def)

theorem register_empty_admin_code_witness:
  "register sb_up s_init ''Asha'' ''asha@sec.edu'' ''secret1'' (Some [])
     = register sb_up s_init ''Asha'' ''asha@sec.edu'' ''secret1'' None
   \<and> calls (snd (register sb_up s_init ''Asha'' ''asha@sec.edu'' ''secret1'' (Some [])))
       = [Auth_signOut, Auth_signUp ''asha@sec.edu'' ''secret1'' ''Asha'' Role_user,
          Profiles_insert ''u1'' Role_user ''Asha'']"
proof -
  note t = register_empty_admin_code [of sb_up s_init "''Asha''" "''asha@sec.edu''" "''secret1''"]
  from t [THEN conjunct2]
  have "calls (snd (register sb_up s_init ''Asha'' ''asha@sec.edu'' ''secret1'' (Some [])))
       = [Auth_signOut, Auth_signUp ''asha@sec.edu'' ''secret1'' ''Asha'' Role_user,
          Profiles_insert ''u1'' Role_user ''Asha'']"
    by simp
  with t [THEN conjunct1] show ?thesis by (rule conjI)
qed

section \<open>Properties of the data context\<close>

lemma mset_filter_split:
  "(\<And>x. Q x = (\<not> P x)) \<Longrightarrow> mset (filter P xs) + mset (filter Q xs) = mset xs"
  by (induction xs) auto

lemma ItemType_string_inject [simp]: "(ItemType_string a = ItemType_string b) = (a = b)"
  by (cases a; cases b) simp_all

lemma query_selects_id: "query_selects le [Eq ''id'' id'] r = (row_id r = id')"
  by (simp add: query_selects_def column_value_def)

lemma query_selects_delete_query:
  "query_selects le (delete_query dateRange ty) r =
     ((case dateRange of
         None \<Rightarrow> True
       | Some d \<Rightarrow> le (range_start d) (row_date r) \<and> le (row_date r) (range_end d))
      \<and> (case ty of
           None \<Rightarrow> True
         | Some All_types \<Rightarrow> True
         | Some (One_type t) \<Rightarrow> row_type r = t))"
  by (simp add: query_selects_def delete_query_def column_value_def
           split: option.splits type_choice.splits)

lemma items_loadItems:
  "items (loadItems sb s) =
     (case from_items_select sb of
        Inl e \<Rightarrow> INITIAL_ITEMS
      | Inr None \<Rightarrow> items s
      | Inr (Some data) \<Rightarrow> map mapSupabaseItem data)"
  by (simp add: loadItems_def issue_def show_toast_def Let_def split: sum.splits option.splits)

lemma calls_loadItems: "calls (loadItems sb s) = calls s @ [Items_select]"
  by (simp add: loadItems_def issue_def show_toast_def Let_def split: sum.splits option.splits)

text \<open>
  C3.  In every state the emergency items and the normal items have no item in
  common and together are the items of the local list; counted with
  multiplicity, the two views together hold each item as often as the list does.
\<close>

theorem emergency_normal_partition:
  "set (getEmergencyItems s) \<inter> set (getNormalItems s) = {}
   \<and> set (getEmergencyItems s) \<union> set (getNormalItems s) = set (items s)
   \<and> mset (getEmergencyItems s) + mset (getNormalItems s) = mset (items s)"
proof -
  have other: "(item_type x = Normal) = (item_type x \<noteq> Emergency)" for x :: Item
    by (cases "item_type x") simp_all
  have "set (getEmergencyItems s) \<inter> set (getNormalItems s) = {}"
    by (auto simp: getEmergencyItems_def getNormalItems_def)
  moreover have "set (getEmergencyItems s) \<union> set (getNormalItems s) = set (items s)"
    using other by (auto simp: getEmergencyItems_def getNormalItems_def)
  moreover have "mset (getEmergencyItems s) + mset (getNormalItems s) = mset (items s)"
    unfolding getEmergencyItems_def getNormalItems_def
    by (rule mset_filter_split) (rule other)
  ultimately show ?thesis by simp
qed

theorem emergency_normal_partition_witness:
  "set (getEmergencyItems (s_with None)) \<inter> set (getNormalItems (s_with None)) = {}
   \<and> set (getEmergencyItems (s_with None)) \<union> set (getNormalItems (s_with None))
       = set INITIAL_ITEMS
   \<and> mset (getEmergencyItems (s_with None)) + mset (getNormalItems (s_with None))
       = mset INITIAL_ITEMS"
  using emergency_normal_partition [of "s_with None"] by simp

text \<open>
  C4.  When a user is logged in, the date converts and the insert answers with a
  row, \<^verbatim>\<open>addItem\<close> puts the item built from that row at the head of the local list,
  in front of the items that were there.  The object inserted carries the
  submitted status and type; so when the row returned is the row of that insert
  (its columns status and type are the inserted ones), the item at the head has
  the submitted status and type.
\<close>

theorem addItem_success_prepends:
  assumes "user s = Some u"
    and "toISOString (new_date d) = Some isoString"
    and "from_items_insert sb (itemData u d isoString) = Inr (Some row)"
  shows "items (addItem toISOString sb s d) = mapSupabaseItem row # items s
       \<and> calls (addItem toISOString sb s d) = calls s @ [Items_insert (itemData u d isoString)]
       \<and> ins_status (itemData u d isoString) = new_status d
       \<and> ins_type (itemData u d isoString) = new_type d
       \<and> (row_status row = ins_status (itemData u d isoString)
            \<and> row_type row = ins_type (itemData u d isoString)
          \<longrightarrow> status (hd (items (addItem toISOString sb s d))) = new_status d
            \<and> item_type (hd (items (addItem toISOString sb s d))) = new_type d)"
  using assms
  by (simp add: addItem_def issue_def show_toast_def itemData_def mapSupabaseItem_def)

theorem addItem_success_prepends_witness:
  "user (s_with (Some sample_user)) = Some sample_user
   \<and> sample_toISOString (new_date sample_new) = Some ''2024-01-05T08:00:00.000Z''
   \<and> from_items_insert sb_up (itemData sample_user sample_new ''2024-01-05T08:00:00.000Z'')
       = Inr (Some sample_row)
   \<and> row_status sample_row
       = ins_status (itemData sample_user sample_new ''2024-01-05T08:00:00.000Z'')
   \<and> row_type sample_row
       = ins_type (itemData sample_user sample_new ''2024-01-05T08:00:00.000Z'')
   \<and> items (addItem sample_toISOString sb_up (s_with (Some sample_user)) sample_new)
       = mapSupabaseItem sample_row # INITIAL_ITEMS
   \<and> status (hd (items (addItem sample_toISOString sb_up (s_with (Some sample_user)) sample_new)))
       = Found
   \<and> item_type (hd (items (addItem sample_toISOString sb_up (s_with (Some sample_user)) sample_new)))
       = Emergency"
proof -
  have h1: "user (s_with (Some sample_user)) = Some sample_user"
    by simp
  have h2: "sample_toISOString (new_date sample_new) = Some ''2024-01-05T08:00:00.000Z''"
    by simp
  have h3: "from_items_insert sb_up (itemData sample_user sample_new ''2024-01-05T08:00:00.000Z'')
              = Inr (Some sample_row)"
    by (simp add: sample_row_def)
  have h4: "row_status sample_row
              = ins_status (itemData sample_user sample_new ''2024-01-05T08:00:00.000Z'')
          \<and> row_type sample_row
              = ins_type (itemData sample_user sample_new ''2024-01-05T08:00:00.000Z'')"
    by (simp add: sample_row_def)
  note t = addItem_success_prepends
    [where toISOString = sample_toISOString and s = "s_with (Some sample_user)"
       and u = sample_user and d = sample_new and sb = sb_up
       and isoString = "''2024-01-05T08:00:00.000Z''" and row = sample_row, OF h1 h2 h3]
  from t have c1: "items (addItem sample_toISOString sb_up (s_with (Some sample_user)) sample_new)
                     = mapSupabaseItem sample_row # INITIAL_ITEMS"
    by simp
  from t h4
  have "status (hd (items (addItem sample_toISOString sb_up (s_with (Some sample_user)) sample_new)))
          = new_status sample_new
      \<and> item_type (hd (items (addItem sample_toISOString sb_up (s_with (Some sample_user)) sample_new)))
          = new_type sample_new"
    by blast
  then have c2:
    "status (hd (items (addItem sample_toISOString sb_up (s_with (Some sample_user)) sample_new)))
       = Found"
    "item_type (hd (items (addItem sample_toISOString sb_up (s_with (Some sample_user)) sample_new)))
       = Emergency"
    by simp_all
  from h1 h2 h3 h4 c1 c2 show ?thesis by blast
qed

text \<open>
  C5.  When no user is logged in, or the user's role is not admin,
  \<^verbatim>\<open>deleteItemsByFilter\<close> issues no remote call, leaves the local list as it was and
  shows the toast "Only admins can perform batch deletions".
\<close>

theorem deleteItemsByFilter_non_admin:
  assumes "case user s of None \<Rightarrow> True | Some u \<Rightarrow> user_role u \<noteq> Role_admin"
  shows "calls (deleteItemsByFilter sb s dateRange ty) = calls s
       \<and> items (deleteItemsByFilter sb s dateRange ty) = items s
       \<and> toasts (deleteItemsByFilter sb s dateRange ty)
           = toasts s @ [Toast_error ''Only admins can perform batch deletions'']"
  using assms by (simp add: deleteItemsByFilter_def show_toast_def)

theorem deleteItemsByFilter_non_admin_witness:
  "(case user (s_with (Some sample_user)) of None \<Rightarrow> True | Some u \<Rightarrow> user_role u \<noteq> Role_admin)
   \<and> calls (deleteItemsByFilter sb_up (s_with (Some sample_user)) None (Some All_types)) = []
   \<and> items (deleteItemsByFilter sb_up (s_with (Some sample_user)) None (Some All_types))
       = INITIAL_ITEMS
   \<and> toasts (deleteItemsByFilter sb_up (s_with (Some sample_user)) None (Some All_types))
       = [Toast_error ''Only admins can perform batch deletions'']"
  using deleteItemsByFilter_non_admin
    [of "s_with (Some sample_user)" sb_up None "Some All_types"]
  by simp

text \<open>
  C6.  When the remote update of \<^verbatim>\<open>updateItemStatus\<close> answers without error, the
  one call issued is an update of the status filtered by equality on the column id
  with the given id, a filter that selects exactly the rows with that id.  The
  local list keeps its length and order; at each position the item with the given
  id is the old item with only its status replaced, and any other item is as
  before.
\<close>

theorem updateItemStatus_success:
  assumes "from_items_update sb status' [Eq ''id'' id'] = None"
  shows "calls (updateItemStatus sb s id' status') = calls s @ [Items_update status' [Eq ''id'' id']]
       \<and> query_selects le [Eq ''id'' id'] r = (row_id r = id')
       \<and> length (items (updateItemStatus sb s id' status')) = length (items s)
       \<and> (\<forall>i < length (items s).
            items (updateItemStatus sb s id' status') ! i =
              (if item_id (items s ! i) = id' then (items s ! i)\<lparr>status := status'\<rparr>
               else items s ! i))"
  using assms
  by (simp add: updateItemStatus_def issue_def show_toast_def query_selects_id)

theorem updateItemStatus_success_witness:
  "from_items_update sb_up Found [Eq ''id'' ''item1''] = None
   \<and> calls (updateItemStatus sb_up (s_with None) ''item1'' Found)
       = [Items_update Found [Eq ''id'' ''item1'']]
   \<and> items (updateItemStatus sb_up (s_with None) ''item1'' Found) ! 0
       = (INITIAL_ITEMS ! 0)\<lparr>status := Found\<rparr>
   \<and> items (updateItemStatus sb_up (s_with None) ''item1'' Found) ! 1 = INITIAL_ITEMS ! 1
   \<and> items (updateItemStatus sb_up (s_with None) ''item1'' Found) ! 2 = INITIAL_ITEMS ! 2"
proof -
  have h: "from_items_update sb_up Found [Eq ''id'' ''item1''] = None"
    by simp
  note t = updateItemStatus_success
    [OF h, where s = "s_with None" and le = "\<lambda>a b. True" and r = sample_row]
  have ids: "item_id (INITIAL_ITEMS ! 0) = ''item1''" "item_id (INITIAL_ITEMS ! 1) \<noteq> ''item1''"
    "item_id (INITIAL_ITEMS ! 2) \<noteq> ''item1''"
    by (simp_all add: INITIAL_ITEMS_def)
  from t have c: "calls (updateItemStatus sb_up (s_with None) ''item1'' Found)
       = [Items_update Found [Eq ''id'' ''item1'']]"
    by simp
  from t have n: "i < 3 \<Longrightarrow>
       items (updateItemStatus sb_up (s_with None) ''item1'' Found) ! i =
         (if item_id (INITIAL_ITEMS ! i) = ''item1'' then (INITIAL_ITEMS ! i)\<lparr>status := Found\<rparr>
          else INITIAL_ITEMS ! i)" for i
    by simp
  from h c n [of 0] n [of 1] n [of 2] ids show ?thesis by simp
qed

text \<open>
  C7.  When the select of \<^verbatim>\<open>loadItems\<close> answers with an error, the local list
  becomes the built-in sample list, which has three items, whatever the list was
  before, and the toast "Failed to load items" is shown.
\<close>

theorem loadItems_failure_fallback:
  assumes "from_items_select sb = Inl e"
  shows "items (loadItems sb s) = INITIAL_ITEMS
       \<and> length (items (loadItems sb s)) = 3
       \<and> items (loadItems sb s) \<noteq> []
       \<and> toasts (loadItems sb s) = toasts s @ [Toast_error ''Failed to load items'']"
  using assms by (simp add: loadItems_def issue_def show_toast_def INITIAL_ITEMS_def)

theorem loadItems_failure_fallback_witness:
  "from_items_select sb_down = Inl (Error ''network'')
   \<and> items (loadItems sb_down s_init) = INITIAL_ITEMS
   \<and> length (items (loadItems sb_down s_init)) = 3
   \<and> toasts (loadItems sb_down s_init) = [Toast_error ''Failed to load items'']"
  using loadItems_failure_fallback [of sb_down "Error ''network''" s_init]
  by simp

text \<open>
  C8.  When the remote call of a mutation fails (the insert of \<^verbatim>\<open>addItem\<close>, the
  update of \<^verbatim>\<open>updateItemStatus\<close>, the delete of \<^verbatim>\<open>deleteItem\<close>, the delete query of
  \<^verbatim>\<open>deleteItemsByFilter\<close> called by an admin), the local list is what it was before
  the operation and an error toast is shown.  A failed batch delete is not followed
  by a reload.
\<close>

theorem remote_failure_keeps_items:
  "(user s = Some u \<and> toISOString (new_date d) = Some isoString
      \<and> from_items_insert sb (itemData u d isoString) = Inl e
    \<longrightarrow> items (addItem toISOString sb s d) = items s
      \<and> toasts (addItem toISOString sb s d) = toasts s @ [Toast_error ''Failed to add item''])
   \<and> (from_items_update sb status' [Eq ''id'' id'] = Some e
    \<longrightarrow> items (updateItemStatus sb s id' status') = items s
      \<and> toasts (updateItemStatus sb s id' status')
          = toasts s @ [Toast_error ''Failed to update item status''])
   \<and> (from_items_delete sb [Eq ''id'' id'] = Some e
    \<longrightarrow> items (deleteItem sb s id') = items s
      \<and> toasts (deleteItem sb s id') = toasts s @ [Toast_error ''Failed to delete item''])
   \<and> (user s = Some a \<and> user_role a = Role_admin
      \<and> from_items_delete sb (delete_query dateRange ty) = Some e
    \<longrightarrow> items (deleteItemsByFilter sb s dateRange ty) = items s
      \<and> toasts (deleteItemsByFilter sb s dateRange ty)
          = toasts s @ [Toast_error ''Failed to delete items'']
      \<and> calls (deleteItemsByFilter sb s dateRange ty)
          = calls s @ [Items_delete (delete_query dateRange ty)])"
proof -
  have add: "items (addItem toISOString sb s d) = items s
      \<and> toasts (addItem toISOString sb s d) = toasts s @ [Toast_error ''Failed to add item'']"
    if "user s = Some u" "toISOString (new_date d) = Some isoString"
       "from_items_insert sb (itemData u d isoString) = Inl e"
    using that by (simp add: addItem_def issue_def show_toast_def)
  have upd: "items (updateItemStatus sb s id' status') = items s
      \<and> toasts (updateItemStatus sb s id' status')
          = toasts s @ [Toast_error ''Failed to update item status'']"
    if "from_items_update sb status' [Eq ''id'' id'] = Some e"
    using that by (simp add: updateItemStatus_def issue_def show_toast_def)
  have del: "items (deleteItem sb s id') = items s
      \<and> toasts (deleteItem sb s id') = toasts s @ [Toast_error ''Failed to delete item'']"
    if "from_items_delete sb [Eq ''id'' id'] = Some e"
    using that by (simp add: deleteItem_def issue_def show_toast_def)
  have batch: "items (deleteItemsByFilter sb s dateRange ty) = items s
      \<and> toasts (deleteItemsByFilter sb s dateRange ty)
          = toasts s @ [Toast_error ''Failed to delete items'']
      \<and> calls (deleteItemsByFilter sb s dateRange ty)
          = calls s @ [Items_delete (delete_query dateRange ty)]"
    if "user s = Some a" "user_role a = Role_admin"
       "from_items_delete sb (delete_query dateRange ty) = Some e"
    using that by (simp add: deleteItemsByFilter_def issue_def show_toast_def)
  from add upd del batch show ?thesis by blast
qed

theorem remote_failure_keeps_items_witness:
  "user (s_with (Some sample_admin)) = Some sample_admin
   \<and> user_role sample_admin = Role_admin
   \<and> sample_toISOString (new_date sample_new) = Some ''2024-01-05T08:00:00.000Z''
   \<and> from_items_insert sb_down (itemData sample_admin sample_new ''2024-01-05T08:00:00.000Z'')
       = Inl (Error ''network'')
   \<and> from_items_update sb_down Found [Eq ''id'' ''item1''] = Some (Error ''network'')
   \<and> from_items_delete sb_down [Eq ''id'' ''item1''] = Some (Error ''network'')
   \<and> from_items_delete sb_down (delete_query None (Some (One_type Normal)))
       = Some (Error ''network'')
   \<and> items (addItem sample_toISOString sb_down (s_with (Some sample_admin)) sample_new)
       = INITIAL_ITEMS
   \<and> toasts (addItem sample_toISOString sb_down (s_with (Some sample_admin)) sample_new)
       = [Toast_error ''Failed to add item'']
   \<and> items (updateItemStatus sb_down (s_with (Some sample_admin)) ''item1'' Found) = INITIAL_ITEMS
   \<and> toasts (updateItemStatus sb_down (s_with (Some sample_admin)) ''item1'' Found)
       = [Toast_error ''Failed to update item status'']
   \<and> items (deleteItem sb_down (s_with (Some sample_admin)) ''item1'') = INITIAL_ITEMS
   \<and> toasts (deleteItem sb_down (s_with (Some sample_admin)) ''item1'')
       = [Toast_error ''Failed to delete item'']
   \<and> items (deleteItemsByFilter sb_down (s_with (Some sample_admin)) None (Some (One_type Normal)))
       = INITIAL_ITEMS
   \<and> toasts (deleteItemsByFilter sb_down (s_with (Some sample_admin)) None (Some (One_type Normal)))
       = [Toast_error ''Failed to delete items'']"
  using remote_failure_keeps_items
    [where s = "s_with (Some sample_admin)" and u = sample_admin and a = sample_admin
       and toISOString = sample_toISOString and d = sample_new
       and isoString = "''2024-01-05T08:00:00.000Z''" and sb = sb_down
       and e = "Error ''network''" and status' = Found and id' = "''item1''"
       and dateRange = None and ty = "Some (One_type Normal)"]
  by simp

text \<open>
  C9.  For an admin, \<^verbatim>\<open>deleteItemsByFilter\<close> issues one delete query.  The query
  selects a row exactly when the row's date lies between start and end of the
  range, both included, if a range is given, and the row's type is the given type,
  if a type other than "all" is given; an absent range, an absent type and the
  type "all" put no condition on the row.  When the delete answers without error
  the next call is the select of \<^verbatim>\<open>loadItems\<close>, and the local list afterwards is the
  one that \<^verbatim>\<open>loadItems\<close> produces, not a filtered copy of the old list; when the
  delete fails no select follows.
\<close>

theorem deleteItemsByFilter_admin_query:
  assumes "user s = Some u" and "user_role u = Role_admin"
  shows "calls (deleteItemsByFilter sb s dateRange ty) =
           calls s @ Items_delete (delete_query dateRange ty) #
             (case from_items_delete sb (delete_query dateRange ty) of
                None \<Rightarrow> [Items_select]
              | Some e \<Rightarrow> [])
       \<and> query_selects le (delete_query dateRange ty) r =
           ((case dateRange of
               None \<Rightarrow> True
             | Some d \<Rightarrow> le (range_start d) (row_date r) \<and> le (row_date r) (range_end d))
            \<and> (case ty of
                 None \<Rightarrow> True
               | Some All_types \<Rightarrow> True
               | Some (One_type t) \<Rightarrow> row_type r = t))
       \<and> (from_items_delete sb (delete_query dateRange ty) = None \<longrightarrow>
            items (deleteItemsByFilter sb s dateRange ty) = items (loadItems sb s)
            \<and> items (deleteItemsByFilter sb s dateRange ty) =
                (case from_items_select sb of
                   Inl e \<Rightarrow> INITIAL_ITEMS
                 | Inr None \<Rightarrow> items s
                 | Inr (Some data) \<Rightarrow> map mapSupabaseItem data))"
proof -
  have "calls (deleteItemsByFilter sb s dateRange ty) =
           calls s @ Items_delete (delete_query dateRange ty) #
             (case from_items_delete sb (delete_query dateRange ty) of
                None \<Rightarrow> [Items_select]
              | Some e \<Rightarrow> [])"
    using assms
    by (simp add: deleteItemsByFilter_def issue_def show_toast_def calls_loadItems Let_def
             split: option.splits)
  moreover have "items (deleteItemsByFilter sb s dateRange ty) = items (loadItems sb s)"
    if "from_items_delete sb (delete_query dateRange ty) = None"
    using assms that
    by (simp add: deleteItemsByFilter_def issue_def show_toast_def items_loadItems Let_def
             split: sum.splits option.splits)
  ultimately show ?thesis
    by (simp add: query_selects_delete_query items_loadItems)
qed

theorem deleteItemsByFilter_admin_query_witness:
  "user (s_with (Some sample_admin)) = Some sample_admin
   \<and> user_role sample_admin = Role_admin
   \<and> calls (deleteItemsByFilter sb_up (s_with (Some sample_admin))
              (Some \<lparr>range_start = ''2023-05-16'', range_end = ''2023-05-18''\<rparr>)
              (Some (One_type Normal)))
       = [Items_delete [Gte ''date'' ''2023-05-16'', Lte ''date'' ''2023-05-18'',
                        Eq ''type'' ''normal''],
          Items_select]
   \<and> items (deleteItemsByFilter sb_up (s_with (Some sample_admin))
              (Some \<lparr>range_start = ''2023-05-16'', range_end = ''2023-05-18''\<rparr>)
              (Some (One_type Normal)))
       = [mapSupabaseItem sample_row]"
proof -
  have h1: "user (s_with (Some sample_admin)) = Some sample_admin"
    by simp
  have h2: "user_role sample_admin = Role_admin"
    by simp
  note t = deleteItemsByFilter_admin_query
    [where s = "s_with (Some sample_admin)" and u = sample_admin and sb = sb_up
       and dateRange = "Some \<lparr>range_start = ''2023-05-16'', range_end = ''2023-05-18''\<rparr>"
       and ty = "Some (One_type Normal)" and le = "\<lambda>a b. True" and r = sample_row,
     OF h1 h2]
  from t [THEN conjunct1]
  have c1: "calls (deleteItemsByFilter sb_up (s_with (Some sample_admin))
                     (Some \<lparr>range_start = ''2023-05-16'', range_end = ''2023-05-18''\<rparr>)
                     (Some (One_type Normal)))
              = [Items_delete [Gte ''date'' ''2023-05-16'', Lte ''date'' ''2023-05-18'',
                               Eq ''type'' ''normal''],
                 Items_select]"
    by (simp add: delete_query_def)
  have ok: "from_items_delete sb_up
              (delete_query (Some \<lparr>range_start = ''2023-05-16'', range_end = ''2023-05-18''\<rparr>)
                 (Some (One_type Normal))) = None"
    by simp
  from t [THEN conjunct2, THEN conjunct2, rule_format, OF ok, THEN conjunct2]
  have c2: "items (deleteItemsByFilter sb_up (s_with (Some sample_admin))
                     (Some \<lparr>range_start = ''2023-05-16'', range_end = ''2023-05-18''\<rparr>)
                     (Some (One_type Normal)))
              = [mapSupabaseItem sample_row]"
    by simp
  from h1 h2 c1 c2 show ?thesis by blast
qed

text \<open>
  The reload that follows a successful batch delete is \<^verbatim>\<open>loadItems\<close> itself: when
  its select fails, the local list becomes the sample list and both the error toast
  of the reload and the success toast of the delete are shown.
\<close>

lemma deleteItemsByFilter_reload_failure:
  assumes "user s = Some u" and "user_role u = Role_admin"
    and "from_items_delete sb (delete_query dateRange ty) = None"
    and "from_items_select sb = Inl e"
  shows "items (deleteItemsByFilter sb s dateRange ty) = INITIAL_ITEMS
       \<and> toasts (deleteItemsByFilter sb s dateRange ty)
           = toasts s @ [Toast_error ''Failed to load items'',
                         Toast_success ''Items deleted successfully'']"
  using assms
  by (simp add: deleteItemsByFilter_def loadItems_def issue_def show_toast_def Let_def)

end
